theory Spec2Isabelle
  imports Complex_Main "HOL-Library.Char_ord" "HOL-Library.List_Lexorder"
begin

section \<open>The daily solar report of \<^verbatim>\<open>calculator.py\<close>\<close>

text \<open>
  \<^verbatim>\<open>calculate_astronomical_events(lat, lon, date_str, tzo)\<close> asks the PyEphem library for
  the sun's risings and settings at four horizon angles and formats the answers.
  The embedding follows the function line by line. What the function calls outside the
  repository is handled as follows.
  \<^item> The ephemeris (\<^verbatim>\<open>Observer.next_rising\<close>, \<^verbatim>\<open>Observer.next_setting\<close>,
    \<^verbatim>\<open>Sun.compute\<close>) and \<^verbatim>\<open>datetime.strptime\<close> are parameters, collected in the
    record \<open>library\<close>. A search either returns an instant or raises; it leaves the
    observer as it found it (PyEphem restores the date it moves while searching).
  \<^item> A \<^verbatim>\<open>datetime\<close> is the number of microseconds since 0001-01-01T00:00:00, a
    \<^verbatim>\<open>date\<close> is its proleptic Gregorian ordinal (1 for 0001-01-01), a
    \<^verbatim>\<open>timedelta\<close> is a number of microseconds. The range checks of the
    \<^verbatim>\<open>datetime\<close> module (years 1 to 9999, at most 999999999 days) are branches of
    the model.
  \<^item> Python floats are read as the real numbers they denote: rounding error of the
    float operations, NaN and infinities are outside the model. An \<^verbatim>\<open>ephem.Date\<close>
    is an instant on the same microsecond scale, and the half microsecond that the
    midpoint of two instants may carry is dropped.
\<close>

subsection \<open>Exceptions\<close>

datatype py_exception = AlwaysUpError | NeverUpError | ValueError | OverflowError | TypeError

definition and_then :: "py_exception + 'a \<Rightarrow> ('a \<Rightarrow> py_exception + 'b) \<Rightarrow> py_exception + 'b" where
  "and_then m f = (case m of Inl e \<Rightarrow> Inl e | Inr x \<Rightarrow> f x)"

text \<open>The clause \<^verbatim>\<open>except (ephem.AlwaysUpError, ephem.NeverUpError)\<close>.\<close>

definition caught :: "py_exception \<Rightarrow> bool" where
  "caught e = (e = AlwaysUpError \<or> e = NeverUpError)"

subsection \<open>The \<^verbatim>\<open>datetime\<close> module\<close>

definition us_per_minute :: int where
  "us_per_minute = 60000000"

definition us_per_hour :: int where
  "us_per_hour = 3600000000"

definition us_per_day :: int where
  "us_per_day = 86400000000"

text \<open>The first instant after \<^verbatim>\<open>datetime.max\<close>; 3652059 is the ordinal of 9999-12-31.\<close>

definition datetime_end :: int where
  "datetime_end = 3652059 * 86400000000"

definition datetime_ok :: "int \<Rightarrow> bool" where
  "datetime_ok t = (0 \<le> t \<and> t < datetime_end)"

text \<open>\<^verbatim>\<open>datetime.datetime.combine(date, datetime.time(h, m))\<close>\<close>

definition datetime_combine :: "int \<Rightarrow> int \<Rightarrow> int \<Rightarrow> int" where
  "datetime_combine d h m = (d - 1) * us_per_day + h * us_per_hour + m * us_per_minute"

text \<open>\<^verbatim>\<open>datetime + timedelta\<close> raises OverflowError outside the years 1 to 9999.\<close>

definition datetime_add :: "int \<Rightarrow> int \<Rightarrow> py_exception + int" where
  "datetime_add t d = (if datetime_ok (t + d) then Inr (t + d) else Inl OverflowError)"

definition round_half_even :: "real \<Rightarrow> int" where
  "round_half_even x =
     (let f = \<lfloor>x\<rfloor>; r = x - of_int f
      in if r < 1 / 2 then f else if 1 / 2 < r then f + 1 else if even f then f else f + 1)"

text \<open>
  \<^verbatim>\<open>datetime.timedelta(hours=tzo)\<close>: the hours are rounded to whole microseconds
  (ties to even), and a magnitude beyond 999999999 days raises OverflowError.
\<close>

definition timedelta_hours :: "real \<Rightarrow> py_exception + int" where
  "timedelta_hours h =
     (let us = round_half_even (h * 3600000000)
      in if - 999999999 \<le> us div us_per_day \<and> us div us_per_day \<le> 999999999
         then Inr us else Inl OverflowError)"

text \<open>\<^verbatim>\<open>datetime.timedelta(hours=h, minutes=m)\<close> for the integer literals of the source.\<close>

definition timedelta_hm :: "int \<Rightarrow> int \<Rightarrow> int" where
  "timedelta_hm h m = h * us_per_hour + m * us_per_minute"

definition digit_char :: "nat \<Rightarrow> char" where
  "digit_char d = ''0123456789'' ! d"

definition two_digits :: "nat \<Rightarrow> string" where
  "two_digits n = [digit_char (n div 10), digit_char (n mod 10)]"

text \<open>\<^verbatim>\<open>strftime("%H:%M")\<close>\<close>

definition strftime_HM :: "int \<Rightarrow> string" where
  "strftime_HM t =
     two_digits (nat (t div us_per_hour mod 24)) @ '':'' @ two_digits (nat (t div us_per_minute mod 60))"

subsection \<open>Numbers and their formatting\<close>

text \<open>\<^verbatim>\<open>int(x)\<close> of a float truncates towards zero; \<^verbatim>\<open>x % 1\<close> lies in [0, 1).\<close>

definition py_int :: "real \<Rightarrow> int" where
  "py_int x = (if 0 \<le> x then \<lfloor>x\<rfloor> else \<lceil>x\<rceil>)"

definition py_mod1 :: "real \<Rightarrow> real" where
  "py_mod1 x = x - of_int \<lfloor>x\<rfloor>"

definition math_degrees :: "real \<Rightarrow> real" where
  "math_degrees x = x * (180 / pi)"

fun str_nat :: "nat \<Rightarrow> string" where
  "str_nat n = (if n < 10 then [digit_char n] else str_nat (n div 10) @ [digit_char (n mod 10)])"

declare str_nat.simps [simp del]

text \<open>\<^verbatim>\<open>str(i)\<close> of an int.\<close>

definition str_int :: "int \<Rightarrow> string" where
  "str_int i = (if i < 0 then CHR ''-'' # str_nat (nat (- i)) else str_nat (nat i))"

text \<open>The format \<^verbatim>\<open>{i:02d}\<close>: zeros on the left up to width 2, the sign counted.\<close>

definition format_02d :: "int \<Rightarrow> string" where
  "format_02d i = (let s = str_int i in replicate (2 - length s) CHR ''0'' @ s)"

text \<open>
  \<^verbatim>\<open>f"{int(h):02d}:{int((h % 1) * 60):02d}"\<close>, the rendering of
  \<^verbatim>\<open>day_length_hours\<close> and \<^verbatim>\<open>night_length_hours\<close>.
\<close>

definition format_hours :: "real \<Rightarrow> string" where
  "format_hours h = format_02d (py_int h) @ '':'' @ format_02d (py_int (py_mod1 h * 60))"

subsection \<open>The ephemeris\<close>

record observer =
  obs_lat :: real
  obs_lon :: real
  obs_horizon :: int
  obs_date :: int

text \<open>
  \<open>strptime\<close> is \<^verbatim>\<open>datetime.datetime.strptime(s, "%Y-%m-%d").date()\<close>, the date as its
  ordinal. \<open>next_rising\<close> and \<open>next_setting\<close> take the observer and the flag
  \<^verbatim>\<open>use_center\<close>. \<open>sun_alt\<close> is \<^verbatim>\<open>sun.alt\<close> (radians) after
  \<^verbatim>\<open>sun.compute(observer)\<close>.
\<close>

record library =
  strptime :: "string \<Rightarrow> py_exception + int"
  next_rising :: "observer \<Rightarrow> bool \<Rightarrow> py_exception + int"
  next_setting :: "observer \<Rightarrow> bool \<Rightarrow> py_exception + int"
  sun_alt :: "observer \<Rightarrow> real"

text \<open>\<^verbatim>\<open>ephem.Date(x).datetime()\<close>: the datetime constructor rejects years outside 1 to 9999.\<close>

definition ephem_datetime :: "int \<Rightarrow> py_exception + int" where
  "ephem_datetime t = (if datetime_ok t then Inr t else Inl ValueError)"

subsection \<open>\<^verbatim>\<open>calculate_astronomical_events\<close>\<close>

text \<open>A local variable that holds either the string \<^verbatim>\<open>"N/A"\<close> or a datetime.\<close>

datatype str_or_datetime = Text string | Datetime int

record report =
  Astronomical_Dawn :: string
  Nautical_Dawn :: string
  Civil_Dawn :: string
  sunrise :: string
  UVA_on :: string
  UVB_on :: string
  SolarNoon :: string
  UVB_off :: string
  UVA_off :: string
  sunset :: string
  CivilDusk :: string
  NauticalDusk :: string
  AstronomicalDusk :: string
  daylength :: string
  nightLength :: string
  sleepDuration :: string
  ElevationAngle :: string

record result =
  date_iso :: string
  data :: "report list"
  nextAvailable :: "string list"

text \<open>Lines 24 to 31: the first \<^verbatim>\<open>try\<close>; either both events or neither.\<close>

definition rising_and_setting :: "library \<Rightarrow> observer \<Rightarrow> py_exception + (int option \<times> int option)" where
  "rising_and_setting lib observer =
     (case next_rising lib observer False of
        Inl e \<Rightarrow> if caught e then Inr (None, None) else Inl e
      | Inr r \<Rightarrow>
          (case next_setting lib observer False of
             Inl e \<Rightarrow> if caught e then Inr (None, None) else Inl e
           | Inr s \<Rightarrow> Inr (Some r, Some s)))"

record day_values =
  sunrise_local :: str_or_datetime
  sunset_local :: str_or_datetime
  day_length_str :: string
  night_length_str :: string
  solar_noon_local :: str_or_datetime

text \<open>
  Lines 33 to 60. The test \<^verbatim>\<open>sunrise is None or sunset is None\<close> is the second case, the
  \<^verbatim>\<open>else\<close> branch the first.
\<close>

definition day_and_noon :: "int \<Rightarrow> real \<Rightarrow> int option \<Rightarrow> int option \<Rightarrow> py_exception + day_values" where
  "day_and_noon date tzo sunrise_e sunset_e =
     (case (sunrise_e, sunset_e) of
        (Some rising, Some setting) \<Rightarrow>
          and_then (ephem_datetime rising) (\<lambda>sunrise_utc.
          and_then (ephem_datetime setting) (\<lambda>sunset_utc.
          and_then (timedelta_hours tzo) (\<lambda>tz.
          and_then (datetime_add sunrise_utc tz) (\<lambda>sunrise_loc.
          and_then (datetime_add sunset_utc tz) (\<lambda>sunset_loc.
          let day_length_seconds = real_of_int (sunset_utc - sunrise_utc) / 1000000;
              day_length_hours = day_length_seconds / 3600;
              night_length_hours = 24 - day_length_hours
          in
          and_then (ephem_datetime ((rising + setting) div 2)) (\<lambda>solar_noon_utc.
          and_then (datetime_add solar_noon_utc tz) (\<lambda>noon.
          Inr \<lparr>sunrise_local = Datetime sunrise_loc, sunset_local = Datetime sunset_loc,
               day_length_str = format_hours day_length_hours,
               night_length_str = format_hours night_length_hours,
               solar_noon_local = Datetime noon\<rparr>)))))))
      | _ \<Rightarrow>
          and_then (timedelta_hours tzo) (\<lambda>tz.
          and_then (datetime_add (datetime_combine date 12 0) tz) (\<lambda>noon.
          Inr \<lparr>sunrise_local = Text ''N/A'', sunset_local = Text ''N/A'',
               day_length_str = (if sunrise_e = None then ''24:00'' else ''00:00''),
               night_length_str = (if sunrise_e = None then ''00:00'' else ''24:00''),
               solar_noon_local = Datetime noon\<rparr>)))"

text \<open>
  One \<^verbatim>\<open>try\<close> of the twilight loop (lines 76 to 82 and 85 to 92): the event of
  the ephemeris, shifted and formatted, or \<^verbatim>\<open>"N/A"\<close> when it raised one of
  the two caught exceptions.
\<close>

definition twilight_event :: "real \<Rightarrow> py_exception + int \<Rightarrow> py_exception + string" where
  "twilight_event tzo ev =
     (case ev of
        Inl e \<Rightarrow> if caught e then Inr ''N/A'' else Inl e
      | Inr t \<Rightarrow>
          and_then (ephem_datetime t) (\<lambda>utc.
          and_then (timedelta_hours tzo) (\<lambda>tz.
          and_then (datetime_add utc tz) (\<lambda>local. Inr (strftime_HM local)))))"

definition twilight_table :: "(string \<times> int) list" where
  "twilight_table = [(''Astronomical'', - 18), (''Nautical'', - 12), (''Civil'', - 6)]"

text \<open>Lines 65 to 92: the loop, with the observer and the dictionary it updates.\<close>

fun twilight_loop ::
  "library \<Rightarrow> int \<Rightarrow> real \<Rightarrow> (string \<times> int) list \<Rightarrow> observer \<times> (string \<rightharpoonup> string)
     \<Rightarrow> py_exception + (observer \<times> (string \<rightharpoonup> string))" where
  "twilight_loop lib date tzo [] (observer, twilight_times) = Inr (observer, twilight_times)"
| "twilight_loop lib date tzo ((twilight_type, angle) # rest) (observer, twilight_times) =
     (let observer = observer\<lparr>obs_horizon := angle, obs_date := datetime_combine date 0 0\<rparr> in
      and_then (twilight_event tzo (next_rising lib observer True)) (\<lambda>dawn.
      let twilight_times = twilight_times(twilight_type @ ''_Dawn'' \<mapsto> dawn);
          observer = observer\<lparr>obs_date := datetime_combine date 12 0\<rparr> in
      and_then (twilight_event tzo (next_setting lib observer True)) (\<lambda>dusk.
      let twilight_times = twilight_times(twilight_type @ ''Dusk'' \<mapsto> dusk) in
      twilight_loop lib date tzo rest (observer, twilight_times))))"

text \<open>\<^verbatim>\<open>x + timedelta\<close> on such a variable; a string operand raises TypeError.\<close>

definition plus_timedelta :: "str_or_datetime \<Rightarrow> int \<Rightarrow> py_exception + str_or_datetime" where
  "plus_timedelta x d =
     (case x of Text s \<Rightarrow> Inl TypeError
      | Datetime t \<Rightarrow> and_then (datetime_add t d) (\<lambda>t'. Inr (Datetime t')))"

text \<open>Lines 96 to 105: (\<^verbatim>\<open>uva_on_local\<close>, \<^verbatim>\<open>uva_off_local\<close>, \<^verbatim>\<open>uvb_on_local\<close>, \<^verbatim>\<open>uvb_off_local\<close>).\<close>

definition uv_windows ::
  "int option \<Rightarrow> int option \<Rightarrow> str_or_datetime \<Rightarrow> str_or_datetime
     \<Rightarrow> py_exception + (str_or_datetime \<times> str_or_datetime \<times> str_or_datetime \<times> str_or_datetime)" where
  "uv_windows sunrise_e sunset_e sunrise_loc sunset_loc =
     (if sunrise_e \<noteq> None \<and> sunset_e \<noteq> None then
        and_then (plus_timedelta sunrise_loc (timedelta_hm 1 8)) (\<lambda>uva_on_local.
        and_then (plus_timedelta sunset_loc (- timedelta_hm 1 8)) (\<lambda>uva_off_local.
        and_then (plus_timedelta sunrise_loc (timedelta_hm 3 16)) (\<lambda>uvb_on_local.
        and_then (plus_timedelta sunset_loc (- timedelta_hm 3 16)) (\<lambda>uvb_off_local.
        Inr (uva_on_local, uva_off_local, uvb_on_local, uvb_off_local)))))
      else Inr (Text ''N/A'', Text ''N/A'', Text ''N/A'', Text ''N/A''))"

text \<open>\<^verbatim>\<open>x.strftime("%H:%M") if isinstance(x, datetime.datetime) else x\<close>\<close>

definition hm_or_text :: "str_or_datetime \<Rightarrow> string" where
  "hm_or_text x = (case x of Datetime t \<Rightarrow> strftime_HM t | Text s \<Rightarrow> s)"

text \<open>\<^verbatim>\<open>twilight_times.get(key, "N/A")\<close>\<close>

definition dict_get :: "(string \<rightharpoonup> string) \<Rightarrow> string \<Rightarrow> string \<Rightarrow> string" where
  "dict_get d k dflt = (case d k of None \<Rightarrow> dflt | Some v \<Rightarrow> v)"

text \<open>
  The function. \<^verbatim>\<open>str(sleep_duration)\<close> is written as the string of each of the two
  float literals.
\<close>

definition calculate_astronomical_events ::
  "library \<Rightarrow> real \<Rightarrow> real \<Rightarrow> string \<Rightarrow> real \<Rightarrow> py_exception + result" where
  "calculate_astronomical_events lib lat lon date_str tzo =
     and_then (strptime lib date_str) (\<lambda>date.
     let observer = \<lparr>obs_lat = lat, obs_lon = lon, obs_horizon = 0,
                     obs_date = datetime_combine date 0 0\<rparr> in
     and_then (rising_and_setting lib observer) (\<lambda>(sunrise_e, sunset_e).
     and_then (day_and_noon date tzo sunrise_e sunset_e) (\<lambda>day.
     and_then (twilight_loop lib date tzo twilight_table (observer, Map.empty))
       (\<lambda>(observer, twilight_times).
     and_then (uv_windows sunrise_e sunset_e (sunrise_local day) (sunset_local day))
       (\<lambda>(uva_on_local, uva_off_local, uvb_on_local, uvb_off_local).
     let sleep_duration = (if sunrise_e \<noteq> None \<and> sunset_e \<noteq> None then ''7.638'' else ''7.0'');
         observer = observer\<lparr>obs_date := datetime_combine date 0 0\<rparr>;
         elevation_angle = py_int (math_degrees (sun_alt lib observer))
     in
     Inr \<lparr>date_iso = date_str @ ''T00:00:00.000Z'',
          data =
            [\<lparr>Astronomical_Dawn = dict_get twilight_times ''Astronomical_Dawn'' ''N/A'',
              Nautical_Dawn = dict_get twilight_times ''Nautical_Dawn'' ''N/A'',
              Civil_Dawn = dict_get twilight_times ''Civil_Dawn'' ''N/A'',
              sunrise = hm_or_text (sunrise_local day),
              UVA_on = hm_or_text uva_on_local,
              UVB_on = hm_or_text uvb_on_local,
              SolarNoon =
                (case solar_noon_local day of Datetime t \<Rightarrow> strftime_HM t | Text s \<Rightarrow> ''12:00''),
              UVB_off = hm_or_text uvb_off_local,
              UVA_off = hm_or_text uva_off_local,
              sunset = hm_or_text (sunset_local day),
              CivilDusk = dict_get twilight_times ''CivilDusk'' ''N/A'',
              NauticalDusk = dict_get twilight_times ''NauticalDusk'' ''N/A'',
              AstronomicalDusk = dict_get twilight_times ''AstronomicalDusk'' ''N/A'',
              daylength = day_length_str day,
              nightLength = night_length_str day,
              sleepDuration = sleep_duration,
              ElevationAngle = str_int elevation_angle\<rparr>],
          nextAvailable = []\<rparr>)))))"

section \<open>Vocabulary of the properties\<close>

text \<open>The observer as the function has set it up when it asks the ephemeris.\<close>

definition observer_at :: "real \<Rightarrow> real \<Rightarrow> int \<Rightarrow> int \<Rightarrow> observer" where
  "observer_at lat lon angle t = \<lparr>obs_lat = lat, obs_lon = lon, obs_horizon = angle, obs_date = t\<rparr>"

text \<open>
  How an answer of the ephemeris is to appear in the report: an instant as its local
  clock time, \<open>tz\<close> microseconds after UTC; an event that is not observable as the
  sentinel.
\<close>

definition shown :: "int \<Rightarrow> py_exception + int \<Rightarrow> string" where
  "shown tz ev = (case ev of Inl e \<Rightarrow> ''N/A'' | Inr t \<Rightarrow> strftime_HM (t + tz))"



text \<open>The ephemeris of \<open>lib\<close>, asked about the location (\<open>la\<close>, \<open>lo\<close>) whatever the observer says.\<close>

definition at_location :: "library \<Rightarrow> real \<Rightarrow> real \<Rightarrow> library" where
  "at_location lib la lo =
     lib\<lparr>next_rising := (\<lambda>obs. next_rising lib (obs\<lparr>obs_lat := la, obs_lon := lo\<rparr>)),
         next_setting := (\<lambda>obs. next_setting lib (obs\<lparr>obs_lat := la, obs_lon := lo\<rparr>)),
         sun_alt := (\<lambda>obs. sun_alt lib (obs\<lparr>obs_lat := la, obs_lon := lo\<rparr>))\<rparr>"

text \<open>
  The duration in minutes that \<open>format_hours h\<close> shows: sixty times its hour field plus
  its minute field.
\<close>

definition shown_minutes :: "real \<Rightarrow> int" where
  "shown_minutes h = py_int h * 60 + py_int (py_mod1 h * 60)"

section \<open>Sample days\<close>

text \<open>
  Answers of an ephemeris on particular days, in UTC: almanac values to the minute, each
  collected in a \<open>library\<close> on which the function can be run. What is proved from
  them depends only on which events are observable and on the order of the instants,
  not on the exact minute.
\<close>

text \<open>
  Athens, 2025-04-14 (ordinal 739355), the input of \<^verbatim>\<open>main()\<close>: the sun is down at
  00:00 UTC, and all eight events follow within the day.
\<close>

definition athens_lib :: library where
  "athens_lib =
     \<lparr>strptime = (\<lambda>s. if s = ''2025-04-14'' then Inr 739355 else Inl ValueError),
      next_rising = (\<lambda>obs c.
        if obs_horizon obs = 0 then Inr (datetime_combine 739355 3 51)
        else if obs_horizon obs = - 6 then Inr (datetime_combine 739355 3 24)
        else if obs_horizon obs = - 12 then Inr (datetime_combine 739355 2 52)
        else Inr (datetime_combine 739355 2 18)),
      next_setting = (\<lambda>obs c.
        if obs_horizon obs = 0 then Inr (datetime_combine 739355 16 58)
        else if obs_horizon obs = - 6 then Inr (datetime_combine 739355 17 25)
        else if obs_horizon obs = - 12 then Inr (datetime_combine 739355 17 57)
        else Inr (datetime_combine 739355 18 31)),
      sun_alt = (\<lambda>obs. - (383 / 1800) * pi)\<rparr>"

text \<open>
  Sydney, 2025-04-14: at 00:00 UTC it is 10:00 there and the sun is up. The next
  setting (07:31:05 UTC) comes before the next rising (20:17:20 UTC), the dawns are
  those of the next local morning, and the dusks searched from 12:00 UTC are those of
  the next UTC day (ordinal 739356).
\<close>

definition sydney_lib :: library where
  "sydney_lib =
     \<lparr>strptime = (\<lambda>s. if s = ''2025-04-14'' then Inr 739355 else Inl ValueError),
      next_rising = (\<lambda>obs c.
        if obs_horizon obs = 0 then Inr (datetime_combine 739355 20 17 + 20000000)
        else if obs_horizon obs = - 6 then Inr (datetime_combine 739355 19 52)
        else if obs_horizon obs = - 12 then Inr (datetime_combine 739355 19 23)
        else Inr (datetime_combine 739355 18 54)),
      next_setting = (\<lambda>obs c.
        if obs_horizon obs = 0 then Inr (datetime_combine 739355 7 31 + 5000000)
        else if obs_horizon obs = - 6 then Inr (datetime_combine 739356 7 55)
        else if obs_horizon obs = - 12 then Inr (datetime_combine 739356 8 24)
        else Inr (datetime_combine 739356 8 53)),
      sun_alt = (\<lambda>obs. (389 / 1800) * pi)\<rparr>"

text \<open>
  Latitude 78, longitude 15, 2025-12-21 (ordinal 739606), the polar night: the sun
  stays below the horizon and below -6 degrees, and crosses -12 and -18 degrees.
\<close>

definition polar_night_lib :: library where
  "polar_night_lib =
     \<lparr>strptime = (\<lambda>s. if s = ''2025-12-21'' then Inr 739606 else Inl ValueError),
      next_rising = (\<lambda>obs c.
        if obs_horizon obs = - 12 then Inr (datetime_combine 739606 9 45)
        else if obs_horizon obs = - 18 then Inr (datetime_combine 739606 6 37)
        else Inl NeverUpError),
      next_setting = (\<lambda>obs c.
        if obs_horizon obs = - 12 then Inr (datetime_combine 739606 12 11)
        else if obs_horizon obs = - 18 then Inr (datetime_combine 739606 15 19)
        else Inl NeverUpError),
      sun_alt = (\<lambda>obs. - (352 / 1800) * pi)\<rparr>"



text \<open>
  The same place on 2025-04-19 (ordinal 739360), when the midnight sun begins: the sun
  rises at 00:12 UTC and does not set again, and it stays above -6 degrees. At
  00:00 UTC it stands 0.7 degrees below the horizon.
\<close>

definition midnight_sun_lib :: library where
  "midnight_sun_lib =
     \<lparr>strptime = (\<lambda>s. if s = ''2025-04-19'' then Inr 739360 else Inl ValueError),
      next_rising = (\<lambda>obs c.
        if obs_horizon obs = 0 then Inr (datetime_combine 739360 0 12) else Inl AlwaysUpError),
      next_setting = (\<lambda>obs c. Inl AlwaysUpError),
      sun_alt = (\<lambda>obs. - (7 / 1800) * pi)\<rparr>"

text \<open>The reports that the function returns on these days.\<close>

definition athens_report :: report where
  "athens_report =
     \<lparr>Astronomical_Dawn = ''05:18'', Nautical_Dawn = ''05:52'', Civil_Dawn = ''06:24'',
      sunrise = ''06:51'', UVA_on = ''07:59'', UVB_on = ''10:07'', SolarNoon = ''13:24'',
      UVB_off = ''16:42'', UVA_off = ''18:50'', sunset = ''19:58'', CivilDusk = ''20:25'',
      NauticalDusk = ''20:57'', AstronomicalDusk = ''21:31'', daylength = ''13:07'',
      nightLength = ''10:53'', sleepDuration = ''7.638'', ElevationAngle = ''-38''\<rparr>"

text \<open>Athens again, the clock five and a half hours ahead of UTC.\<close>

definition athens_report_half_hour :: report where
  "athens_report_half_hour =
     \<lparr>Astronomical_Dawn = ''07:48'', Nautical_Dawn = ''08:22'', Civil_Dawn = ''08:54'',
      sunrise = ''09:21'', UVA_on = ''10:29'', UVB_on = ''12:37'', SolarNoon = ''15:54'',
      UVB_off = ''19:12'', UVA_off = ''21:20'', sunset = ''22:28'', CivilDusk = ''22:55'',
      NauticalDusk = ''23:27'', AstronomicalDusk = ''00:01'', daylength = ''13:07'',
      nightLength = ''10:53'', sleepDuration = ''7.638'', ElevationAngle = ''-38''\<rparr>"

definition sydney_report :: report where
  "sydney_report =
     \<lparr>Astronomical_Dawn = ''04:54'', Nautical_Dawn = ''05:23'', Civil_Dawn = ''05:52'',
      sunrise = ''06:17'', UVA_on = ''07:25'', UVB_on = ''09:33'', SolarNoon = ''23:54'',
      UVB_off = ''14:15'', UVA_off = ''16:23'', sunset = ''17:31'', CivilDusk = ''17:55'',
      NauticalDusk = ''18:24'', AstronomicalDusk = ''18:53'', daylength = ''-12:13'',
      nightLength = ''36:46'', sleepDuration = ''7.638'', ElevationAngle = ''38''\<rparr>"

definition polar_night_report :: report where
  "polar_night_report =
     \<lparr>Astronomical_Dawn = ''07:37'', Nautical_Dawn = ''10:45'', Civil_Dawn = ''N/A'',
      sunrise = ''N/A'', UVA_on = ''N/A'', UVB_on = ''N/A'', SolarNoon = ''13:00'',
      UVB_off = ''N/A'', UVA_off = ''N/A'', sunset = ''N/A'', CivilDusk = ''N/A'',
      NauticalDusk = ''13:11'', AstronomicalDusk = ''16:19'', daylength = ''24:00'',
      nightLength = ''00:00'', sleepDuration = ''7.0'', ElevationAngle = ''-35''\<rparr>"


definition midnight_sun_report :: report where
  "midnight_sun_report =
     \<lparr>Astronomical_Dawn = ''N/A'', Nautical_Dawn = ''N/A'', Civil_Dawn = ''N/A'',
      sunrise = ''N/A'', UVA_on = ''N/A'', UVB_on = ''N/A'', SolarNoon = ''14:00'',
      UVB_off = ''N/A'', UVA_off = ''N/A'', sunset = ''N/A'', CivilDusk = ''N/A'',
      NauticalDusk = ''N/A'', AstronomicalDusk = ''N/A'', daylength = ''24:00'',
      nightLength = ''00:00'', sleepDuration = ''7.0'', ElevationAngle = ''0''\<rparr>"

text \<open>The envelope around a report.\<close>

definition enveloped :: "string \<Rightarrow> report \<Rightarrow> result" where
  "enveloped date_str r = \<lparr>date_iso = date_str @ ''T00:00:00.000Z'', data = [r], nextAvailable = []\<rparr>"

section \<open>Facts about the parts of the function\<close>

subsection \<open>Sequencing\<close>

lemma and_then_Inl [simp]: "and_then (Inl e) f = Inl e"
  by (simp add: and_then_def)

lemma and_then_Inr [simp]: "and_then (Inr x) f = f x"
  by (simp add: and_then_def)

lemma and_then_eq_Inr: "and_then m f = Inr y \<longleftrightarrow> (\<exists>x. m = Inr x \<and> f x = Inr y)"
  by (cases m) simp_all

lemma and_then_assoc:
  "and_then (and_then m f) g = and_then m (\<lambda>x. and_then (f x) g)"
  by (cases m) simp_all

lemma and_then_cong:
  "m = m' \<Longrightarrow> (\<And>x. m' = Inr x \<Longrightarrow> f x = f' x) \<Longrightarrow> and_then m f = and_then m' f'"
  by (cases m') simp_all

subsection \<open>Clock strings\<close>

text \<open>
  A clock string has five characters, so it is never the sentinel, and within one
  calendar day clock strings are ordered as their instants are.
\<close>

lemma length_strftime_HM: "length (strftime_HM t) = 5"
  by (simp add: strftime_HM_def two_digits_def)

lemma strftime_HM_not_sentinel [simp]: "strftime_HM t \<noteq> ''N/A''"
  using length_strftime_HM [of t] by auto

lemma shown_simps [simp]:
  "shown tz (Inl e) = ''N/A''" "shown tz (Inr t) = strftime_HM (t + tz)"
  by (simp_all add: shown_def)











subsection \<open>Truncation\<close>


subsection \<open>Day and night, in minutes\<close>

text \<open>
  For a day length between 0 and 24 hours the two strings of lines 52 and 56 show 24:00
  or 23:59 in sum: each truncates its duration to the minute.
\<close>

lemma shown_minutes_nonneg:
  assumes "0 \<le> h"
  shows "shown_minutes h = \<lfloor>h * 60\<rfloor>"
proof -
  have "0 \<le> py_mod1 h * 60"
    unfolding py_mod1_def by (simp add: of_int_floor_le)
  then have "shown_minutes h = \<lfloor>h\<rfloor> * 60 + \<lfloor>(h - of_int \<lfloor>h\<rfloor>) * 60\<rfloor>"
    using assms by (simp add: shown_minutes_def py_int_def py_mod1_def)
  also have "(h - of_int \<lfloor>h\<rfloor>) * 60 = h * 60 - of_int (\<lfloor>h\<rfloor> * 60)"
    by (simp add: algebra_simps)
  also have "\<lfloor>h * 60 - of_int (\<lfloor>h\<rfloor> * 60)\<rfloor> = \<lfloor>h * 60\<rfloor> - \<lfloor>h\<rfloor> * 60"
    by (rule floor_diff_of_int)
  finally show ?thesis by simp
qed

lemma day_and_night_minutes:
  assumes "0 \<le> h" and "h \<le> 24"
  shows "shown_minutes h + shown_minutes (24 - h) = 1440
       \<or> shown_minutes h + shown_minutes (24 - h) = 1439"
proof -
  have "shown_minutes h = \<lfloor>h * 60\<rfloor>" "shown_minutes (24 - h) = \<lfloor>(24 - h) * 60\<rfloor>"
    using assms by (simp_all add: shown_minutes_nonneg)
  moreover have "(24 - h) * 60 = of_int 1440 - h * 60"
    by (simp add: algebra_simps)
  moreover have "\<lfloor>of_int 1440 - h * 60\<rfloor> = 1440 + \<lfloor>- (h * 60)\<rfloor>"
    by (metis add.commute floor_add_int uminus_add_conv_diff)
  moreover have "\<lfloor>h * 60\<rfloor> + \<lfloor>- (h * 60)\<rfloor> = 0 \<or> \<lfloor>h * 60\<rfloor> + \<lfloor>- (h * 60)\<rfloor> = - 1"
    by linarith
  ultimately show ?thesis by auto
qed

text \<open>The day of Sydney: a difference of -45975 seconds between sunset and sunrise.\<close>

lemma sydney_minutes:
  "shown_minutes (- (45975 / 3600)) = - 707" "shown_minutes (24 + 45975 / 3600) = 2206"
  by (simp_all add: shown_minutes_def py_int_def py_mod1_def)

subsection \<open>The stages of a call\<close>

lemma datetime_add_Inr: "datetime_add t d = Inr u \<Longrightarrow> u = t + d"
  by (auto simp: datetime_add_def split: if_splits)

lemma ephem_datetime_Inr: "ephem_datetime t = Inr u \<Longrightarrow> u = t"
  by (auto simp: ephem_datetime_def split: if_splits)

lemma rising_and_setting_cases:
  assumes "rising_and_setting lib obs = Inr (x, y)"
  obtains (observable) a b where
      "next_rising lib obs False = Inr a" "next_setting lib obs False = Inr b"
      "x = Some a" "y = Some b"
  | (not_observable)
      "isl (next_rising lib obs False) \<or> isl (next_setting lib obs False)"
      "x = None" "y = None"
  using assms
  by (auto simp: rising_and_setting_def split: sum.splits if_splits)

lemma day_and_noon_observable:
  assumes "day_and_noon date tzo (Some a) (Some b) = Inr day" and "timedelta_hours tzo = Inr tz"
  shows "day = \<lparr>sunrise_local = Datetime (a + tz), sunset_local = Datetime (b + tz),
                day_length_str = format_hours (real_of_int (b - a) / 1000000 / 3600),
                night_length_str = format_hours (24 - real_of_int (b - a) / 1000000 / 3600),
                solar_noon_local = Datetime ((a + b) div 2 + tz)\<rparr>"
  using assms
  by (auto simp: day_and_noon_def and_then_eq_Inr Let_def
      dest!: datetime_add_Inr ephem_datetime_Inr)

lemma day_and_noon_fallback:
  assumes "day_and_noon date tzo None None = Inr day" and "timedelta_hours tzo = Inr tz"
  shows "day = \<lparr>sunrise_local = Text ''N/A'', sunset_local = Text ''N/A'',
                day_length_str = ''24:00'', night_length_str = ''00:00'',
                solar_noon_local = Datetime (datetime_combine date 12 0 + tz)\<rparr>"
  using assms
  by (auto simp: day_and_noon_def and_then_eq_Inr dest!: datetime_add_Inr)

lemma day_and_noon_timedelta:
  "day_and_noon date tzo x y = Inr day \<Longrightarrow> \<exists>tz. timedelta_hours tzo = Inr tz"
  by (auto simp: day_and_noon_def and_then_eq_Inr split: option.splits)

lemma uv_windows_observable:
  assumes "uv_windows (Some a) (Some b) (Datetime s) (Datetime e) = Inr uv"
  shows "uv = (Datetime (s + timedelta_hm 1 8), Datetime (e - timedelta_hm 1 8),
               Datetime (s + timedelta_hm 3 16), Datetime (e - timedelta_hm 3 16))"
  using assms
  by (auto simp: uv_windows_def plus_timedelta_def and_then_eq_Inr dest!: datetime_add_Inr)

lemma uv_windows_fallback:
  assumes "uv_windows None None s e = Inr uv"
  shows "uv = (Text ''N/A'', Text ''N/A'', Text ''N/A'', Text ''N/A'')"
  using assms by (simp add: uv_windows_def)

lemma twilight_event_Inr:
  assumes "twilight_event tzo ev = Inr v" and "timedelta_hours tzo = Inr tz"
  shows "v = shown tz ev"
  using assms
  by (cases ev) (auto simp: twilight_event_def shown_def and_then_eq_Inr
      dest!: datetime_add_Inr ephem_datetime_Inr split: if_splits)


lemma observer_at_update [simp]:
  "(observer_at lat lon h t)\<lparr>obs_date := t'\<rparr> = observer_at lat lon h t'"
  "(observer_at lat lon h t)\<lparr>obs_horizon := h'\<rparr> = observer_at lat lon h' t"
  by (simp_all add: observer_at_def)

lemma twilight_loop_table:
  assumes "twilight_loop lib date tzo twilight_table (observer_at lat lon h t, Map.empty) = Inr (obs', tt)"
  shows "obs' = observer_at lat lon (- 6) (datetime_combine date 12 0)"
    and "twilight_event tzo (next_rising lib (observer_at lat lon (- 18) (datetime_combine date 0 0)) True)
           = Inr (dict_get tt ''Astronomical_Dawn'' ''N/A'')"
    and "twilight_event tzo (next_rising lib (observer_at lat lon (- 12) (datetime_combine date 0 0)) True)
           = Inr (dict_get tt ''Nautical_Dawn'' ''N/A'')"
    and "twilight_event tzo (next_rising lib (observer_at lat lon (- 6) (datetime_combine date 0 0)) True)
           = Inr (dict_get tt ''Civil_Dawn'' ''N/A'')"
    and "twilight_event tzo (next_setting lib (observer_at lat lon (- 18) (datetime_combine date 12 0)) True)
           = Inr (dict_get tt ''AstronomicalDusk'' ''N/A'')"
    and "twilight_event tzo (next_setting lib (observer_at lat lon (- 12) (datetime_combine date 12 0)) True)
           = Inr (dict_get tt ''NauticalDusk'' ''N/A'')"
    and "twilight_event tzo (next_setting lib (observer_at lat lon (- 6) (datetime_combine date 12 0)) True)
           = Inr (dict_get tt ''CivilDusk'' ''N/A'')"
  using assms
  by (auto simp: twilight_table_def observer_at_def Let_def and_then_eq_Inr dict_get_def)

text \<open>
  The anatomy of a call that returns a report.
\<close>

lemma calculate_returns:
  assumes "calculate_astronomical_events lib lat lon date_str tzo = Inr res"
  obtains date sunrise_e sunset_e day tt uva_on uva_off uvb_on uvb_off where
    "strptime lib date_str = Inr date"
    "rising_and_setting lib (observer_at lat lon 0 (datetime_combine date 0 0)) = Inr (sunrise_e, sunset_e)"
    "day_and_noon date tzo sunrise_e sunset_e = Inr day"
    "twilight_loop lib date tzo twilight_table
       (observer_at lat lon 0 (datetime_combine date 0 0), Map.empty)
       = Inr (observer_at lat lon (- 6) (datetime_combine date 12 0), tt)"
    "uv_windows sunrise_e sunset_e (sunrise_local day) (sunset_local day)
       = Inr (uva_on, uva_off, uvb_on, uvb_off)"
    "data res =
       [\<lparr>Astronomical_Dawn = dict_get tt ''Astronomical_Dawn'' ''N/A'',
         Nautical_Dawn = dict_get tt ''Nautical_Dawn'' ''N/A'',
         Civil_Dawn = dict_get tt ''Civil_Dawn'' ''N/A'',
         sunrise = hm_or_text (sunrise_local day),
         UVA_on = hm_or_text uva_on,
         UVB_on = hm_or_text uvb_on,
         SolarNoon = (case solar_noon_local day of Datetime t \<Rightarrow> strftime_HM t | Text s \<Rightarrow> ''12:00''),
         UVB_off = hm_or_text uvb_off,
         UVA_off = hm_or_text uva_off,
         sunset = hm_or_text (sunset_local day),
         CivilDusk = dict_get tt ''CivilDusk'' ''N/A'',
         NauticalDusk = dict_get tt ''NauticalDusk'' ''N/A'',
         AstronomicalDusk = dict_get tt ''AstronomicalDusk'' ''N/A'',
         daylength = day_length_str day,
         nightLength = night_length_str day,
         sleepDuration = (if sunrise_e \<noteq> None \<and> sunset_e \<noteq> None then ''7.638'' else ''7.0''),
         ElevationAngle =
           str_int (py_int (math_degrees (sun_alt lib (observer_at lat lon (- 6) (datetime_combine date 0 0)))))\<rparr>]"
    "date_iso res = date_str @ ''T00:00:00.000Z''" "nextAvailable res = []"
proof -
  from assms obtain date ev day st uv where
    d: "strptime lib date_str = Inr date"
    and e: "rising_and_setting lib (observer_at lat lon 0 (datetime_combine date 0 0)) = Inr ev"
    and dn: "day_and_noon date tzo (fst ev) (snd ev) = Inr day"
    and tl: "twilight_loop lib date tzo twilight_table
       (observer_at lat lon 0 (datetime_combine date 0 0), Map.empty) = Inr st"
    and u: "uv_windows (fst ev) (snd ev) (sunrise_local day) (sunset_local day) = Inr uv"
    and r: "res = (case st of (observer, twilight_times) \<Rightarrow> case uv of (uva_on_local, uva_off_local, uvb_on_local, uvb_off_local) \<Rightarrow>
     \<lparr>date_iso = date_str @ ''T00:00:00.000Z'',
          data =
            [\<lparr>Astronomical_Dawn = dict_get twilight_times ''Astronomical_Dawn'' ''N/A'',
              Nautical_Dawn = dict_get twilight_times ''Nautical_Dawn'' ''N/A'',
              Civil_Dawn = dict_get twilight_times ''Civil_Dawn'' ''N/A'',
              sunrise = hm_or_text (sunrise_local day),
              UVA_on = hm_or_text uva_on_local,
              UVB_on = hm_or_text uvb_on_local,
              SolarNoon =
                (case solar_noon_local day of Datetime t \<Rightarrow> strftime_HM t | Text s \<Rightarrow> ''12:00''),
              UVB_off = hm_or_text uvb_off_local,
              UVA_off = hm_or_text uva_off_local,
              sunset = hm_or_text (sunset_local day),
              CivilDusk = dict_get twilight_times ''CivilDusk'' ''N/A'',
              NauticalDusk = dict_get twilight_times ''NauticalDusk'' ''N/A'',
              AstronomicalDusk = dict_get twilight_times ''AstronomicalDusk'' ''N/A'',
              daylength = day_length_str day,
              nightLength = night_length_str day,
              sleepDuration = (if fst ev \<noteq> None \<and> snd ev \<noteq> None then ''7.638'' else ''7.0''),
              ElevationAngle = str_int (py_int (math_degrees (sun_alt lib (observer\<lparr>obs_date := datetime_combine date 0 0\<rparr>))))\<rparr>],
          nextAvailable = []\<rparr>)"
    unfolding calculate_astronomical_events_def observer_at_def [symmetric]
    by (auto simp: and_then_eq_Inr Let_def split: prod.splits)
  obtain obs' tt where st: "st = (obs', tt)" by (cases st)
  obtain u1 u2 u3 u4 where uv: "uv = (u1, u2, u3, u4)" by (cases uv)
  have o: "obs' = observer_at lat lon (- 6) (datetime_combine date 12 0)"
    using twilight_loop_table(1) [OF tl [unfolded st]] .
  obtain x y where ev: "ev = (x, y)" by (cases ev)
  show thesis
    using d e dn tl u
    by (intro that [of date x y day tt u1 u2 u3 u4]) (simp_all add: r st uv o ev)
qed

subsection \<open>When every stage returns\<close>








subsection \<open>The location reaches the ephemeris only\<close>

lemma at_location_simps [simp]:
  "strptime (at_location lib la lo) = strptime lib"
  "next_rising (at_location lib la lo) obs = next_rising lib (obs\<lparr>obs_lat := la, obs_lon := lo\<rparr>)"
  "next_setting (at_location lib la lo) obs = next_setting lib (obs\<lparr>obs_lat := la, obs_lon := lo\<rparr>)"
  "sun_alt (at_location lib la lo) obs = sun_alt lib (obs\<lparr>obs_lat := la, obs_lon := lo\<rparr>)"
  by (simp_all add: at_location_def)

lemma twilight_loop_at_location:
  "twilight_loop (at_location lib la lo) date tzo table (obs, tt) =
     and_then (twilight_loop lib date tzo table (obs\<lparr>obs_lat := la, obs_lon := lo\<rparr>, tt))
       (\<lambda>(obs', tt'). Inr (obs'\<lparr>obs_lat := obs_lat obs, obs_lon := obs_lon obs\<rparr>, tt'))"
proof (induction table arbitrary: obs tt)
  case Nil
  show ?case by simp
next
  case (Cons entry table)
  obtain twilight_type angle where entry: "entry = (twilight_type, angle)"
    by (cases entry)
  show ?case
    unfolding entry
    by (cases obs) (simp add: Let_def Cons.IH and_then_assoc)
qed

subsection \<open>The sample days, evaluated\<close>

lemmas evaluation =
  calculate_astronomical_events_def and_then_def rising_and_setting_def
  day_and_noon_def twilight_table_def twilight_event_def uv_windows_def plus_timedelta_def
  hm_or_text_def dict_get_def caught_def ephem_datetime_def datetime_add_def datetime_ok_def
  datetime_combine_def timedelta_hours_def timedelta_hm_def round_half_even_def
  strftime_HM_def two_digits_def digit_char_def format_hours_def format_02d_def str_int_def
  str_nat.simps py_int_def py_mod1_def math_degrees_def us_per_minute_def us_per_hour_def
  us_per_day_def datetime_end_def Let_def enveloped_def

lemma data_enveloped: "data (enveloped date_str r) = [r]"
  by (simp add: enveloped_def)

lemma timedelta_hours_samples:
  "timedelta_hours 1 = Inr 3600000000" "timedelta_hours 2 = Inr 7200000000"
  "timedelta_hours 3 = Inr 10800000000" "timedelta_hours 10 = Inr 36000000000"
  "timedelta_hours 13 = Inr 46800000000"
  by (simp_all add: timedelta_hours_def round_half_even_def us_per_day_def)

lemma athens_evaluates:
  "calculate_astronomical_events athens_lib 37.9838096 23.7275388 ''2025-04-14'' 3
     = Inr (enveloped ''2025-04-14'' athens_report)"
  by (simp add: athens_lib_def athens_report_def evaluation)

lemma athens_half_hour_evaluates:
  "calculate_astronomical_events athens_lib 37.9838096 23.7275388 ''2025-04-14'' 5.5
     = Inr (enveloped ''2025-04-14'' athens_report_half_hour)"
  by (simp add: athens_lib_def athens_report_half_hour_def evaluation)

lemma sydney_evaluates:
  "calculate_astronomical_events sydney_lib (- 33.87) 151.21 ''2025-04-14'' 10
     = Inr (enveloped ''2025-04-14'' sydney_report)"
  by (simp add: sydney_lib_def sydney_report_def evaluation)

lemma polar_night_evaluates:
  "calculate_astronomical_events polar_night_lib 78 15 ''2025-12-21'' 1
     = Inr (enveloped ''2025-12-21'' polar_night_report)"
  by (simp add: polar_night_lib_def polar_night_report_def evaluation)


lemma midnight_sun_evaluates:
  "calculate_astronomical_events midnight_sun_lib 78 15 ''2025-04-19'' 2
     = Inr (enveloped ''2025-04-19'' midnight_sun_report)"
  by (simp add: midnight_sun_lib_def midnight_sun_report_def evaluation)

section \<open>The claims\<close>

subsection \<open>C1: lengths when sunrise or sunset is not observable\<close>

text \<open>
  Whenever the search for the rising or for the setting raises, whichever of the two
  caught exceptions it is, the report has daylength "24:00" and nightLength "00:00".
\<close>

lemma not_observable_lengths:
  assumes "calculate_astronomical_events lib lat lon date_str tzo = Inr res"
    and "data res = [r]"
    and "strptime lib date_str = Inr date"
    and "isl (next_rising lib (observer_at lat lon 0 (datetime_combine date 0 0)) False)
       \<or> isl (next_setting lib (observer_at lat lon 0 (datetime_combine date 0 0)) False)"
  shows "daylength r = ''24:00'' \<and> nightLength r = ''00:00''"
proof -
  from assms(1) obtain date' x y day where
    d: "strptime lib date_str = Inr date'"
    and e: "rising_and_setting lib (observer_at lat lon 0 (datetime_combine date' 0 0)) = Inr (x, y)"
    and dn: "day_and_noon date' tzo x y = Inr day"
    and f: "daylength (hd (data res)) = day_length_str day"
      "nightLength (hd (data res)) = night_length_str day"
    by (rule calculate_returns) simp
  from d assms(3) have [simp]: "date' = date" by simp
  from day_and_noon_timedelta [OF dn] obtain tz where tz: "timedelta_hours tzo = Inr tz" ..
  from e show ?thesis
  proof (cases rule: rising_and_setting_cases)
    case (observable a b)
    with assms(4) show ?thesis by simp
  next
    case not_observable
    with day_and_noon_fallback [of date tzo day tz] dn tz f assms(2) show ?thesis
      by simp
  qed
qed

text \<open>
  Claim C1 asks for daylength "24:00" when the sun never sets and "00:00" when it never
  rises, with nightLength the complement. The \<^verbatim>\<open>except\<close> clause of lines 28 to 31 sets
  both \<^verbatim>\<open>sunrise\<close> and \<^verbatim>\<open>sunset\<close> to \<^verbatim>\<open>None\<close> for either exception, so the
  test \<^verbatim>\<open>sunrise is None\<close> of lines 37 and 38 always succeeds. In the polar night
  (latitude 78, 2025-12-21, the ephemeris raises NeverUpError) the function reports
  daylength "24:00" and nightLength "00:00", where the claim asks for "00:00" and "24:00".
\<close>

theorem polar_night_reports_full_day:
  "calculate_astronomical_events polar_night_lib 78 15 ''2025-12-21'' 1
     = Inr (enveloped ''2025-12-21'' polar_night_report)
   \<and> next_rising polar_night_lib (observer_at 78 15 0 (datetime_combine 739606 0 0)) False
     = Inl NeverUpError
   \<and> daylength polar_night_report = ''24:00'' \<and> nightLength polar_night_report = ''00:00''"
  using polar_night_evaluates
  by (simp add: polar_night_lib_def polar_night_report_def observer_at_def)

subsection \<open>C2: validation of latitude and longitude\<close>

text \<open>
  Claim C2 says that a latitude outside [-90, 90] or a longitude outside [-180, 180]
  is answered with an input error. The function has no such check: the longitude
  383.7275388 (that of Athens plus a full turn) is handed to the observer, and with the
  answers of the ephemeris for Athens the call returns the report of Athens.
\<close>

theorem longitude_383_gets_a_report:
  "\<not> (383.7275388 \<le> (180 :: real))
   \<and> calculate_astronomical_events athens_lib 37.9838096 383.7275388 ''2025-04-14'' 3
     = Inr (enveloped ''2025-04-14'' athens_report)"
  by (simp add: athens_lib_def athens_report_def evaluation)

text \<open>
  Claim C2 as amended: the function checks the date string only. A date string that
  \<^verbatim>\<open>strptime\<close> rejects raises that error to the caller and no report is produced;
  latitude and longitude are not range-checked, they reach the ephemeris as given and
  have no other influence on the outcome.
\<close>

theorem only_the_date_string_is_checked:
  "(strptime lib date_str = Inl e \<longrightarrow> calculate_astronomical_events lib lat lon date_str tzo = Inl e)
   \<and> calculate_astronomical_events (at_location lib lat lon) lat' lon' date_str tzo
       = calculate_astronomical_events lib lat lon date_str tzo"
proof
  show "strptime lib date_str = Inl e \<longrightarrow> calculate_astronomical_events lib lat lon date_str tzo = Inl e"
    by (simp add: calculate_astronomical_events_def)
  show "calculate_astronomical_events (at_location lib lat lon) lat' lon' date_str tzo
       = calculate_astronomical_events lib lat lon date_str tzo"
  proof (cases "strptime lib date_str")
    case (Inl e')
    then show ?thesis
      by (simp add: calculate_astronomical_events_def)
  next
    case (Inr date)
    let ?t = "datetime_combine date 0 0"
    have rs: "rising_and_setting (at_location lib lat lon) (observer_at lat' lon' 0 ?t)
        = rising_and_setting lib (observer_at lat lon 0 ?t)"
      by (simp add: rising_and_setting_def observer_at_def split: sum.splits)
    have tl: "twilight_loop (at_location lib lat lon) date tzo twilight_table
          (observer_at lat' lon' 0 ?t, Map.empty)
        = and_then (twilight_loop lib date tzo twilight_table (observer_at lat lon 0 ?t, Map.empty))
            (\<lambda>(obs', tt'). Inr (obs'\<lparr>obs_lat := lat', obs_lon := lon'\<rparr>, tt'))"
      by (simp add: twilight_loop_at_location observer_at_def)
    show ?thesis
    proof (cases "twilight_loop lib date tzo twilight_table (observer_at lat lon 0 ?t, Map.empty)")
      case (Inl e')
      with Inr rs tl show ?thesis
        unfolding calculate_astronomical_events_def observer_at_def [symmetric]
        by (simp add: Let_def split_def cong: and_then_cong)
    next
      case loop: (Inr st)
      obtain obs' tt where st: "st = (obs', tt)" by (cases st)
      from twilight_loop_table(1) [OF loop [unfolded st]]
      have obs': "obs' = observer_at lat lon (- 6) (datetime_combine date 12 0)" .
      from Inr rs tl loop show ?thesis
        unfolding calculate_astronomical_events_def observer_at_def [symmetric]
        by (simp add: Let_def split_def st obs' observer_at_def cong: and_then_cong)
    qed
  qed
qed

text \<open>
  The amended claim at a date string that does not parse, with a latitude beyond the pole.
\<close>

theorem only_the_date_string_is_checked_witness:
  "strptime athens_lib ''2025-04-31'' = Inl ValueError
   \<and> calculate_astronomical_events athens_lib 137.9838096 23.7275388 ''2025-04-31'' 3 = Inl ValueError
   \<and> calculate_astronomical_events (at_location athens_lib 137.9838096 23.7275388) 0 0 ''2025-04-31'' 3
       = calculate_astronomical_events athens_lib 137.9838096 23.7275388 ''2025-04-31'' 3"
proof -
  have s: "strptime athens_lib ''2025-04-31'' = Inl ValueError"
    by (simp add: athens_lib_def)
  from only_the_date_string_is_checked
    [of athens_lib "''2025-04-31''" ValueError "137.9838096" "23.7275388" 3 0 0] s
  show ?thesis by blast
qed

subsection \<open>C3: day length and night length sum to 24:00\<close>

text \<open>
  Claim C3 says that daylength and nightLength, read as durations, sum to 24:00 within
  a minute for all inputs. Line 55 computes the night as 24 hours minus the day, but both
  searches start at 00:00 UTC: where the sun is up at that instant the next setting
  precedes the next rising and \<^verbatim>\<open>day_length_hours\<close> is negative. Then
  \<^verbatim>\<open>int\<close> rounds the hours towards zero while \<^verbatim>\<open>% 1\<close> takes the fraction above
  the floor, and the two strings no longer add up. For Sydney on 2025-04-14 (sunset
  07:31:05 UTC, sunrise 20:17:20 UTC, a difference of -12:46:15) the function reports
  daylength "-12:13" and nightLength "36:46". For a day length between 0 and 24 hours
  the claim holds (\<open>day_and_night_minutes\<close>).
\<close>

theorem sydney_day_and_night_lengths:
  "calculate_astronomical_events sydney_lib (- 33.87) 151.21 ''2025-04-14'' 10
     = Inr (enveloped ''2025-04-14'' sydney_report)
   \<and> daylength sydney_report = ''-12:13'' \<and> nightLength sydney_report = ''36:46''"
  using sydney_evaluates by (simp add: sydney_report_def)

subsection \<open>C4: the order of the reported times\<close>




subsection \<open>C5: solar noon\<close>



subsection \<open>C6: where the twilight searches start\<close>

text \<open>
  Claim C6: for each of the thresholds -6, -12 and -18 degrees the dawn is the next
  rising searched from 00:00 of the date, and the dusk is the next setting searched from
  12:00 of the date, twelve hours later, so that the search for the dusk starts after
  the morning.
\<close>

theorem twilight_searches_from_midnight_and_midday:
  assumes "calculate_astronomical_events lib lat lon date_str tzo = Inr res"
    and "data res = [r]"
    and "strptime lib date_str = Inr date"
    and "timedelta_hours tzo = Inr tz"
  shows "Astronomical_Dawn r = shown tz (next_rising lib (observer_at lat lon (- 18) (datetime_combine date 0 0)) True)
       \<and> Nautical_Dawn r = shown tz (next_rising lib (observer_at lat lon (- 12) (datetime_combine date 0 0)) True)
       \<and> Civil_Dawn r = shown tz (next_rising lib (observer_at lat lon (- 6) (datetime_combine date 0 0)) True)
       \<and> CivilDusk r = shown tz (next_setting lib (observer_at lat lon (- 6) (datetime_combine date 12 0)) True)
       \<and> NauticalDusk r = shown tz (next_setting lib (observer_at lat lon (- 12) (datetime_combine date 12 0)) True)
       \<and> AstronomicalDusk r = shown tz (next_setting lib (observer_at lat lon (- 18) (datetime_combine date 12 0)) True)
       \<and> datetime_combine date 12 0 = datetime_combine date 0 0 + 12 * us_per_hour"
proof -
  from assms(1) obtain date' tt where
    d: "strptime lib date_str = Inr date'"
    and tl: "twilight_loop lib date' tzo twilight_table
       (observer_at lat lon 0 (datetime_combine date' 0 0), Map.empty)
       = Inr (observer_at lat lon (- 6) (datetime_combine date' 12 0), tt)"
    and f: "Astronomical_Dawn (hd (data res)) = dict_get tt ''Astronomical_Dawn'' ''N/A''"
      "Nautical_Dawn (hd (data res)) = dict_get tt ''Nautical_Dawn'' ''N/A''"
      "Civil_Dawn (hd (data res)) = dict_get tt ''Civil_Dawn'' ''N/A''"
      "CivilDusk (hd (data res)) = dict_get tt ''CivilDusk'' ''N/A''"
      "NauticalDusk (hd (data res)) = dict_get tt ''NauticalDusk'' ''N/A''"
      "AstronomicalDusk (hd (data res)) = dict_get tt ''AstronomicalDusk'' ''N/A''"
    by (rule calculate_returns) simp
  from d assms(3) have [simp]: "date' = date" by simp
  note ev = twilight_loop_table(2-7) [OF tl, THEN twilight_event_Inr, OF assms(4)]
  have "datetime_combine date 12 0 = datetime_combine date 0 0 + 12 * us_per_hour"
    by (simp add: datetime_combine_def)
  with ev f assms(2) show ?thesis by simp
qed

text \<open>
  Claim C6 in the polar night, where the sun crosses -12 and -18 degrees only.
\<close>

theorem twilight_searches_from_midnight_and_midday_witness:
  "calculate_astronomical_events polar_night_lib 78 15 ''2025-12-21'' 1
     = Inr (enveloped ''2025-12-21'' polar_night_report)
   \<and> data (enveloped ''2025-12-21'' polar_night_report) = [polar_night_report]
   \<and> strptime polar_night_lib ''2025-12-21'' = Inr 739606
   \<and> timedelta_hours 1 = Inr 3600000000
   \<and> Astronomical_Dawn polar_night_report = strftime_HM (datetime_combine 739606 6 37 + 3600000000)
   \<and> Nautical_Dawn polar_night_report = strftime_HM (datetime_combine 739606 9 45 + 3600000000)
   \<and> Civil_Dawn polar_night_report = ''N/A''
   \<and> CivilDusk polar_night_report = ''N/A''
   \<and> NauticalDusk polar_night_report = strftime_HM (datetime_combine 739606 12 11 + 3600000000)
   \<and> AstronomicalDusk polar_night_report = strftime_HM (datetime_combine 739606 15 19 + 3600000000)"
proof -
  have s: "strptime polar_night_lib ''2025-12-21'' = Inr 739606"
    by (simp add: polar_night_lib_def)
  have t: "timedelta_hours 1 = Inr 3600000000"
    by (rule timedelta_hours_samples)
  from twilight_searches_from_midnight_and_midday [OF polar_night_evaluates data_enveloped s t]
  have "Astronomical_Dawn polar_night_report = strftime_HM (datetime_combine 739606 6 37 + 3600000000)
   \<and> Nautical_Dawn polar_night_report = strftime_HM (datetime_combine 739606 9 45 + 3600000000)
   \<and> Civil_Dawn polar_night_report = ''N/A''
   \<and> CivilDusk polar_night_report = ''N/A''
   \<and> NauticalDusk polar_night_report = strftime_HM (datetime_combine 739606 12 11 + 3600000000)
   \<and> AstronomicalDusk polar_night_report = strftime_HM (datetime_combine 739606 15 19 + 3600000000)"
    by (simp add: polar_night_lib_def observer_at_def)
  with polar_night_evaluates data_enveloped s t show ?thesis by blast
qed

subsection \<open>C7: the elevation angle\<close>



subsection \<open>C8: no exception escapes\<close>




subsection \<open>C9: sunrise and sunset are not available together\<close>

text \<open>
  Claim C9: in every report sunrise is "N/A" exactly when sunset is, and the four UV
  fields are "N/A" in the same case; this is the case exactly when the search for the
  rising or the search for the setting raised, even if only one of them did.
\<close>

theorem sunrise_and_sunset_not_available_together:
  assumes "calculate_astronomical_events lib lat lon date_str tzo = Inr res"
    and "data res = [r]"
    and "strptime lib date_str = Inr date"
  shows "(sunrise r = ''N/A'' \<longleftrightarrow> sunset r = ''N/A'')
       \<and> (UVA_on r = ''N/A'' \<longleftrightarrow> sunrise r = ''N/A'')
       \<and> (UVA_off r = ''N/A'' \<longleftrightarrow> sunrise r = ''N/A'')
       \<and> (UVB_on r = ''N/A'' \<longleftrightarrow> sunrise r = ''N/A'')
       \<and> (UVB_off r = ''N/A'' \<longleftrightarrow> sunrise r = ''N/A'')
       \<and> (sunrise r = ''N/A'' \<longleftrightarrow>
            isl (next_rising lib (observer_at lat lon 0 (datetime_combine date 0 0)) False)
          \<or> isl (next_setting lib (observer_at lat lon 0 (datetime_combine date 0 0)) False))"
proof -
  from assms(1) obtain date' x y day u1 u2 u3 u4 where
    d: "strptime lib date_str = Inr date'"
    and e: "rising_and_setting lib (observer_at lat lon 0 (datetime_combine date' 0 0)) = Inr (x, y)"
    and dn: "day_and_noon date' tzo x y = Inr day"
    and u: "uv_windows x y (sunrise_local day) (sunset_local day) = Inr (u1, u2, u3, u4)"
    and f: "sunrise (hd (data res)) = hm_or_text (sunrise_local day)"
      "sunset (hd (data res)) = hm_or_text (sunset_local day)"
      "UVA_on (hd (data res)) = hm_or_text u1" "UVA_off (hd (data res)) = hm_or_text u2"
      "UVB_on (hd (data res)) = hm_or_text u3" "UVB_off (hd (data res)) = hm_or_text u4"
    by (rule calculate_returns) simp
  from d assms(3) have [simp]: "date' = date" by simp
  from day_and_noon_timedelta [OF dn] obtain tz where tz: "timedelta_hours tzo = Inr tz" ..
  from e show ?thesis
  proof (cases rule: rising_and_setting_cases)
    case * [simplified]: (observable a b)
    have day: "sunrise_local day = Datetime (a + tz)" "sunset_local day = Datetime (b + tz)"
      using day_and_noon_observable [of date' tzo a b day tz] dn tz * by simp_all
    from uv_windows_observable [of a b "a + tz" "b + tz" "(u1, u2, u3, u4)"] u * day
    show ?thesis
      using f assms(2) * by (simp add: hm_or_text_def)
  next
    case * [simplified]: not_observable
    have day: "sunrise_local day = Text ''N/A''" "sunset_local day = Text ''N/A''"
      using day_and_noon_fallback [of date' tzo day tz] dn tz * by simp_all
    from uv_windows_fallback [of "sunrise_local day" "sunset_local day" "(u1, u2, u3, u4)"] u *
    show ?thesis
      using f assms(2) * day by (simp add: hm_or_text_def)
  qed
qed

text \<open>
  Claim C9 on the day the midnight sun begins: the rising is found, the setting is not,
  and both fields are "N/A".
\<close>

theorem sunrise_and_sunset_not_available_together_witness:
  "calculate_astronomical_events midnight_sun_lib 78 15 ''2025-04-19'' 2
     = Inr (enveloped ''2025-04-19'' midnight_sun_report)
   \<and> data (enveloped ''2025-04-19'' midnight_sun_report) = [midnight_sun_report]
   \<and> strptime midnight_sun_lib ''2025-04-19'' = Inr 739360
   \<and> next_rising midnight_sun_lib (observer_at 78 15 0 (datetime_combine 739360 0 0)) False
       = Inr (datetime_combine 739360 0 12)
   \<and> next_setting midnight_sun_lib (observer_at 78 15 0 (datetime_combine 739360 0 0)) False
       = Inl AlwaysUpError
   \<and> sunrise midnight_sun_report = ''N/A'' \<and> sunset midnight_sun_report = ''N/A''
   \<and> UVA_on midnight_sun_report = ''N/A'' \<and> UVA_off midnight_sun_report = ''N/A''
   \<and> UVB_on midnight_sun_report = ''N/A'' \<and> UVB_off midnight_sun_report = ''N/A''"
proof -
  have s: "strptime midnight_sun_lib ''2025-04-19'' = Inr 739360"
    by (simp add: midnight_sun_lib_def)
  have ev: "next_rising midnight_sun_lib (observer_at 78 15 0 (datetime_combine 739360 0 0)) False
       = Inr (datetime_combine 739360 0 12)"
    "next_setting midnight_sun_lib (observer_at 78 15 0 (datetime_combine 739360 0 0)) False
       = Inl AlwaysUpError"
    by (simp_all add: midnight_sun_lib_def observer_at_def)
  from sunrise_and_sunset_not_available_together
    [OF midnight_sun_evaluates data_enveloped s, unfolded ev]
  have "sunrise midnight_sun_report = ''N/A'' \<and> sunset midnight_sun_report = ''N/A''
   \<and> UVA_on midnight_sun_report = ''N/A'' \<and> UVA_off midnight_sun_report = ''N/A''
   \<and> UVB_on midnight_sun_report = ''N/A'' \<and> UVB_off midnight_sun_report = ''N/A''"
    by auto
  with midnight_sun_evaluates data_enveloped s ev show ?thesis by blast
qed

subsection \<open>C10: what tzOffset does not touch\<close>

text \<open>
  Claim C10: for the same latitude, longitude and date, two calls with different
  tzOffset that return reports agree on daylength, nightLength, sleepDuration and
  ElevationAngle.
\<close>

theorem lengths_and_elevation_ignore_tzo:
  assumes "calculate_astronomical_events lib lat lon date_str tzo = Inr res"
    and "calculate_astronomical_events lib lat lon date_str tzo' = Inr res'"
    and "data res = [r]" and "data res' = [r']"
  shows "daylength r = daylength r' \<and> nightLength r = nightLength r'
       \<and> sleepDuration r = sleepDuration r' \<and> ElevationAngle r = ElevationAngle r'"
proof -
  from assms(1) obtain date x y day where
    d: "strptime lib date_str = Inr date"
    and e: "rising_and_setting lib (observer_at lat lon 0 (datetime_combine date 0 0)) = Inr (x, y)"
    and dn: "day_and_noon date tzo x y = Inr day"
    and f: "daylength (hd (data res)) = day_length_str day"
      "nightLength (hd (data res)) = night_length_str day"
      "sleepDuration (hd (data res)) = (if x \<noteq> None \<and> y \<noteq> None then ''7.638'' else ''7.0'')"
      "ElevationAngle (hd (data res)) =
         str_int (py_int (math_degrees (sun_alt lib (observer_at lat lon (- 6) (datetime_combine date 0 0)))))"
    by (rule calculate_returns) simp
  from assms(2) obtain date' x' y' day' where
    d': "strptime lib date_str = Inr date'"
    and e': "rising_and_setting lib (observer_at lat lon 0 (datetime_combine date' 0 0)) = Inr (x', y')"
    and dn': "day_and_noon date' tzo' x' y' = Inr day'"
    and f': "daylength (hd (data res')) = day_length_str day'"
      "nightLength (hd (data res')) = night_length_str day'"
      "sleepDuration (hd (data res')) = (if x' \<noteq> None \<and> y' \<noteq> None then ''7.638'' else ''7.0'')"
      "ElevationAngle (hd (data res')) =
         str_int (py_int (math_degrees (sun_alt lib (observer_at lat lon (- 6) (datetime_combine date' 0 0)))))"
    by (rule calculate_returns) simp
  from d d' have [simp]: "date' = date" by simp
  from e e' have [simp]: "x' = x" "y' = y" by simp_all
  from day_and_noon_timedelta [OF dn] obtain tz where tz: "timedelta_hours tzo = Inr tz" ..
  from day_and_noon_timedelta [OF dn'] obtain tz' where tz': "timedelta_hours tzo' = Inr tz'" ..
  have "day_length_str day = day_length_str day' \<and> night_length_str day = night_length_str day'"
  proof -
    from e show ?thesis
    proof (cases rule: rising_and_setting_cases)
      case (observable a b)
      with day_and_noon_observable [of date tzo a b day tz]
        day_and_noon_observable [of date tzo' a b day' tz'] dn dn' tz tz'
      show ?thesis by simp
    next
      case not_observable
      with day_and_noon_fallback [of date tzo day tz]
        day_and_noon_fallback [of date tzo' day' tz'] dn dn' tz tz'
      show ?thesis by simp
    qed
  qed
  with f f' assms(3,4) show ?thesis by simp
qed

text \<open>
  Claim C10 for Athens with the clock 3 hours and 5.5 hours ahead: the four fields
  agree, the clock times differ.
\<close>

theorem lengths_and_elevation_ignore_tzo_witness:
  "calculate_astronomical_events athens_lib 37.9838096 23.7275388 ''2025-04-14'' 3
     = Inr (enveloped ''2025-04-14'' athens_report)
   \<and> calculate_astronomical_events athens_lib 37.9838096 23.7275388 ''2025-04-14'' 5.5
     = Inr (enveloped ''2025-04-14'' athens_report_half_hour)
   \<and> data (enveloped ''2025-04-14'' athens_report) = [athens_report]
   \<and> data (enveloped ''2025-04-14'' athens_report_half_hour) = [athens_report_half_hour]
   \<and> daylength athens_report = daylength athens_report_half_hour
   \<and> nightLength athens_report = nightLength athens_report_half_hour
   \<and> sleepDuration athens_report = sleepDuration athens_report_half_hour
   \<and> ElevationAngle athens_report = ElevationAngle athens_report_half_hour
   \<and> sunrise athens_report \<noteq> sunrise athens_report_half_hour"
proof -
  have "sunrise athens_report \<noteq> sunrise athens_report_half_hour"
    by (simp add: athens_report_def athens_report_half_hour_def)
  with lengths_and_elevation_ignore_tzo
    [OF athens_evaluates athens_half_hour_evaluates data_enveloped data_enveloped]
    athens_evaluates athens_half_hour_evaluates data_enveloped [of "''2025-04-14''" athens_report]
    data_enveloped [of "''2025-04-14''" athens_report_half_hour]
  show ?thesis by blast
qed

end
